theory Spec2Isabelle
  imports Main "HOL-Library.AList"
begin

section \<open>JavaScript values\<close>

text \<open>
  \<^verbatim>\<open>handler.js\<close> comes in two revisions. The first writes the store from the HTTP
  handlers; the second, modelled here, sends Intents to a queue and lets
  \<^verbatim>\<open>processSqsMessages\<close> write the store.

  The handlers work on values produced by \<^verbatim>\<open>JSON.parse\<close>.
  A JSON value is one of the six JSON shapes; numbers are restricted to the integers
  that JavaScript represents exactly. A
  JavaScript expression that may also be \<^verbatim>\<open>undefined\<close> has type \<open>jsval\<close>, where
  \<open>None\<close> stands for \<^verbatim>\<open>undefined\<close>.
\<close>

datatype json =
    JNull
  | JBool bool
  | JNum int
  | JStr string
  | JArr "json list"
  | JObj "(string \<times> json) list"

type_synonym jsval = "json option"

datatype error = SyntaxError | TypeError | ValidationException | SendMessageError

text \<open>JavaScript truthiness: what \<^verbatim>\<open>if (x)\<close> and \<^verbatim>\<open>!x\<close> test.\<close>

fun truthy :: "jsval \<Rightarrow> bool" where
  "truthy None = False"
| "truthy (Some JNull) = False"
| "truthy (Some (JBool b)) = b"
| "truthy (Some (JNum n)) = (n \<noteq> 0)"
| "truthy (Some (JStr s)) = (s \<noteq> [])"
| "truthy (Some (JArr xs)) = True"
| "truthy (Some (JObj fs)) = True"

text \<open>
  String conversion, as a template literal \<^verbatim>\<open>`${x}`\<close> performs it. It throws a
  TypeError on an object that has a property \<^verbatim>\<open>toString\<close> (a parsed value is never
  callable, and the inherited \<^verbatim>\<open>valueOf\<close> returns the object), and on an array one of
  whose elements it throws on (\<^verbatim>\<open>Array.prototype.toString\<close> joins the converted
  elements). \<open>to_string_ok\<close> says that the conversion returns.
\<close>

fun to_string_ok :: "json \<Rightarrow> bool" where
  "to_string_ok (JArr xs) = list_all to_string_ok xs"
| "to_string_ok (JObj fs) = (map_of fs ''toString'' = None)"
| "to_string_ok v = True"

fun interpolates :: "jsval \<Rightarrow> bool" where
  "interpolates None = True"
| "interpolates (Some v) = to_string_ok v"

text \<open>
  A statement that builds a template literal from the values \<open>vs\<close> and then yields
  \<open>r\<close>.
\<close>

definition template :: "jsval list \<Rightarrow> 'a \<Rightarrow> error + 'a" where
  "template vs r = (if list_all interpolates vs then Inr r else Inl TypeError)"

text \<open>
  Strict equality \<^verbatim>\<open>===\<close> between two values that were parsed separately: arrays
  and objects are compared by reference, so they are never equal; everything else is
  compared by value.
\<close>

fun strict_eq :: "jsval \<Rightarrow> jsval \<Rightarrow> bool" where
  "strict_eq (Some (JArr xs)) y = False"
| "strict_eq (Some (JObj fs)) y = False"
| "strict_eq x y = (x = y)"

text \<open>
  Property access \<^verbatim>\<open>x.k\<close> and destructuring \<^verbatim>\<open>const { k } = x\<close>: a TypeError
  on \<^verbatim>\<open>undefined\<close> and \<^verbatim>\<open>null\<close>, the field of an object, and \<^verbatim>\<open>undefined\<close> for
  the property names the handlers read on any other value.
\<close>

fun props :: "jsval \<Rightarrow> error + (string \<Rightarrow> jsval)" where
  "props None = Inl TypeError"
| "props (Some JNull) = Inl TypeError"
| "props (Some (JObj fs)) = Inr (map_of fs)"
| "props (Some v) = Inr (\<lambda>k. None)"

text \<open>
  An object literal whose field values may be \<^verbatim>\<open>undefined\<close>. Both
  \<^verbatim>\<open>JSON.stringify\<close> and the DynamoDB document client leave such fields out.
\<close>

fun defined_fields :: "(string \<times> jsval) list \<Rightarrow> (string \<times> json) list" where
  "defined_fields [] = []"
| "defined_fields ((k, None) # fs) = defined_fields fs"
| "defined_fields ((k, Some v) # fs) = (k, v) # defined_fields fs"

text \<open>
  A message body is a text. It is represented by what \<^verbatim>\<open>JSON.parse\<close> makes of it:
  \<open>None\<close> is a text that \<^verbatim>\<open>JSON.parse\<close> rejects with a SyntaxError.
\<close>

type_synonym body = "json option"

definition JSON_parse :: "body \<Rightarrow> error + json" where
  "JSON_parse b = (case b of None \<Rightarrow> Inl SyntaxError | Some v \<Rightarrow> Inr v)"

definition JSON_stringify :: "(string \<times> jsval) list \<Rightarrow> body" where
  "JSON_stringify fs = Some (JObj (defined_fields fs))"

section \<open>The record store and the queue\<close>

text \<open>
  The two DynamoDB tables of \<^verbatim>\<open>serverless.yml\<close>: \<^verbatim>\<open>Organizations\<close> with hash key
  \<^verbatim>\<open>orgId\<close>, and \<^verbatim>\<open>Users\<close> with hash key \<^verbatim>\<open>userId\<close> and the global secondary
  index \<^verbatim>\<open>OrgId-index\<close> on \<^verbatim>\<open>orgId\<close>; both key attributes have type S. A table is
  an association list from key to item, an item an association list from attribute
  name to value. The queue is the list of message bodies sent and not yet deleted.

  The store is deterministic: a request fails with a ValidationException exactly when
  DynamoDB rejects its shape (a key attribute that is missing, not a string, empty or
  longer than 2048 bytes; an expression value that is undefined). Outages of the store
  and its limit on the size of an item are not modelled, and index reads are taken as
  consistent. A scan or a query returns one page: DynamoDB stops reading after 1 MB of
  data, and the handlers never ask for the next page. How many items the page covers,
  and whether the queue accepts a message (it refuses one that is too large, and any
  when it is out of service), is decided outside the handlers.
\<close>

type_synonym item = "(string \<times> json) list"
type_synonym table = "(string \<times> item) list"

record world =
  organizations :: table
  users :: table
  queue :: "body list"

datatype table_name = ORGANIZATIONS_TABLE | USERS_TABLE

fun hash_key :: "table_name \<Rightarrow> string" where
  "hash_key ORGANIZATIONS_TABLE = ''orgId''"
| "hash_key USERS_TABLE = ''userId''"

fun index_keys :: "table_name \<Rightarrow> string list" where
  "index_keys ORGANIZATIONS_TABLE = []"
| "index_keys USERS_TABLE = [''orgId'']"

fun table_of :: "table_name \<Rightarrow> world \<Rightarrow> table" where
  "table_of ORGANIZATIONS_TABLE w = organizations w"
| "table_of USERS_TABLE w = users w"

fun with_table :: "table_name \<Rightarrow> table \<Rightarrow> world \<Rightarrow> world" where
  "with_table ORGANIZATIONS_TABLE t w = w\<lparr>organizations := t\<rparr>"
| "with_table USERS_TABLE t w = w\<lparr>users := t\<rparr>"

text \<open>
  The string of a well-formed key attribute value: type S, not empty, at most 2048
  bytes.
\<close>

fun key_string :: "jsval \<Rightarrow> string option" where
  "key_string (Some (JStr s)) = (if s = [] \<or> 2048 < length s then None else Some s)"
| "key_string v = None"

definition index_ok :: "table_name \<Rightarrow> item \<Rightarrow> bool" where
  "index_ok t it =
     list_all (\<lambda>a. map_of it a = None \<or> key_string (map_of it a) \<noteq> None) (index_keys t)"

text \<open>\<^verbatim>\<open>dynamoDb.get({TableName, Key})\<close>: the item stored under the key, if any.\<close>

definition dynamoDb_get :: "table_name \<Rightarrow> jsval \<Rightarrow> world \<Rightarrow> error + item option" where
  "dynamoDb_get t k w =
     (case key_string k of
        None \<Rightarrow> Inl ValidationException
      | Some s \<Rightarrow> Inr (map_of (table_of t w) s))"

text \<open>
  \<^verbatim>\<open>dynamoDb.put({TableName, Item})\<close>: the item, without its undefined fields,
  replaces whatever is stored under its key.
\<close>

definition dynamoDb_put :: "table_name \<Rightarrow> (string \<times> jsval) list \<Rightarrow> world \<Rightarrow> error + world" where
  "dynamoDb_put t Item w =
     (let it = defined_fields Item in
      (case key_string (map_of it (hash_key t)) of
         None \<Rightarrow> Inl ValidationException
       | Some s \<Rightarrow>
           if index_ok t it
           then Inr (with_table t (AList.update s it (table_of t w)) w)
           else Inl ValidationException))"

text \<open>
  \<^verbatim>\<open>dynamoDb.update({TableName, Key, UpdateExpression: 'SET a = :a, ...'})\<close>:
  every assigned value must be defined; the assignments are made on the stored item,
  or on a new item holding only the key when none is stored (an upsert). The handlers
  never assign a key or index attribute.
\<close>

fun set_attrs :: "item \<Rightarrow> (string \<times> jsval) list \<Rightarrow> error + item" where
  "set_attrs it [] = Inr it"
| "set_attrs it ((a, None) # as) = Inl ValidationException"
| "set_attrs it ((a, Some v) # as) = set_attrs (AList.update a v it) as"

definition dynamoDb_update ::
  "table_name \<Rightarrow> jsval \<Rightarrow> (string \<times> jsval) list \<Rightarrow> world \<Rightarrow> error + world" where
  "dynamoDb_update t k assignments w =
     (case key_string k of
        None \<Rightarrow> Inl ValidationException
      | Some s \<Rightarrow>
          let old = (case map_of (table_of t w) s of
                       None \<Rightarrow> [(hash_key t, JStr s)]
                     | Some it \<Rightarrow> it)
          in (case set_attrs old assignments of
                Inl e \<Rightarrow> Inl e
              | Inr new \<Rightarrow> Inr (with_table t (AList.update s new (table_of t w)) w)))"

text \<open>
  \<^verbatim>\<open>dynamoDb.scan\<close> with \<^verbatim>\<open>FilterExpression: '#name = :name'\<close>, and
  \<^verbatim>\<open>dynamoDb.query\<close> on \<^verbatim>\<open>OrgId-index\<close> with key condition \<^verbatim>\<open>orgId = :orgId\<close>
  and \<^verbatim>\<open>FilterExpression: 'email = :email'\<close>. Items come in table order. The
  call reads the first \<open>page\<close> items of the table (of the index partition, for the
  query) and returns those of them that pass the filter.
\<close>

definition dynamoDb_scan ::
  "table_name \<Rightarrow> string \<Rightarrow> jsval \<Rightarrow> nat \<Rightarrow> world \<Rightarrow> error + item list" where
  "dynamoDb_scan t a v page w =
     (case v of
        None \<Rightarrow> Inl ValidationException
      | Some x \<Rightarrow>
          Inr (filter (\<lambda>it. map_of it a = Some x) (take page (map snd (table_of t w)))))"

definition dynamoDb_query :: "jsval \<Rightarrow> jsval \<Rightarrow> nat \<Rightarrow> world \<Rightarrow> error + item list" where
  "dynamoDb_query orgId email page w =
     (case (key_string orgId, email) of
        (Some s, Some e) \<Rightarrow>
          Inr (filter (\<lambda>it. map_of it ''email'' = Some e)
                 (take page
                    (filter (\<lambda>it. map_of it ''orgId'' = Some (JStr s)) (map snd (users w)))))
      | _ \<Rightarrow> Inl ValidationException)"

text \<open>
  \<^verbatim>\<open>sqs.sendMessage({QueueUrl, MessageBody})\<close>: the message joins the queue when
  the queue accepts it, and the call throws otherwise.
\<close>

definition sqs_sendMessage :: "bool \<Rightarrow> body \<Rightarrow> world \<Rightarrow> error + world" where
  "sqs_sendMessage accepts b w =
     (if accepts then Inr (w\<lparr>queue := queue w @ [b]\<rparr>) else Inl SendMessageError)"

section \<open>The consumer: \<^verbatim>\<open>processSqsMessages\<close>\<close>

text \<open>
  One turn of the loop over \<^verbatim>\<open>event.Records\<close>: the body of the \<^verbatim>\<open>try\<close> block.
  \<open>Inl e\<close> is the exception that the \<^verbatim>\<open>catch\<close> block logs and throws again.
  The log line before the \<^verbatim>\<open>switch\<close> converts \<^verbatim>\<open>operation\<close> to a string.
\<close>

definition processRecord :: "body \<Rightarrow> world \<Rightarrow> error + world" where
  "processRecord recordBody w =
     (case JSON_parse recordBody of
        Inl e \<Rightarrow> Inl e
      | Inr messageBody \<Rightarrow>
     (case props (Some messageBody) of
        Inl e \<Rightarrow> Inl e
      | Inr m \<Rightarrow>
          let operation = m ''operation''; data = m ''data'' in
          if \<not> interpolates operation then Inl TypeError
          else if operation = Some (JStr ''createOrganization'') then
            (case props data of
               Inl e \<Rightarrow> Inl e
             | Inr d \<Rightarrow>
                 dynamoDb_put ORGANIZATIONS_TABLE
                   [(''orgId'', d ''orgId''),
                    (''name'', d ''name''),
                    (''description'', d ''description''),
                    (''createdAt'', d ''createdAt''),
                    (''updatedAt'', d ''updatedAt'')] w)
          else if operation = Some (JStr ''updateOrganization'') then
            (case props data of
               Inl e \<Rightarrow> Inl e
             | Inr d \<Rightarrow>
                 dynamoDb_update ORGANIZATIONS_TABLE (d ''orgId'')
                   ((if truthy (d ''name'') then [(''name'', d ''name'')] else []) @
                    (if truthy (d ''description'')
                     then [(''description'', d ''description'')] else []) @
                    [(''updatedAt'', d ''updatedAt'')]) w)
          else if operation = Some (JStr ''createUser'') then
            (case props data of
               Inl e \<Rightarrow> Inl e
             | Inr d \<Rightarrow>
                 dynamoDb_put USERS_TABLE
                   [(''userId'', d ''userId''),
                    (''orgId'', d ''orgId''),
                    (''name'', d ''name''),
                    (''email'', d ''email''),
                    (''createdAt'', d ''createdAt''),
                    (''updatedAt'', d ''updatedAt'')] w)
          else if operation = Some (JStr ''updateUser'') then
            (case props data of
               Inl e \<Rightarrow> Inl e
             | Inr d \<Rightarrow>
                 dynamoDb_update USERS_TABLE (d ''userId'')
                   ((if truthy (d ''name'') then [(''name'', d ''name'')] else []) @
                    (if truthy (d ''email'') then [(''email'', d ''email'')] else []) @
                    [(''updatedAt'', d ''updatedAt'')]) w)
          else Inr w))"

text \<open>
  The loop. The first component of the result is the exception thrown out of the
  invocation, or the status code of the value it returns; the second is the world the
  invocation leaves behind.
\<close>

fun processSqsMessages :: "body list \<Rightarrow> world \<Rightarrow> (error + nat) \<times> world" where
  "processSqsMessages [] w = (Inr 200, w)"
| "processSqsMessages (r # rs) w =
     (case processRecord r w of
        Inl e \<Rightarrow> (Inl e, w)
      | Inr w' \<Rightarrow> processSqsMessages rs w')"

section \<open>The HTTP handlers\<close>

text \<open>
  An HTTP event carries the path parameters (\<open>None\<close> when the event has none), the
  request body and the HTTP method. The environment of one invocation supplies the
  identifier that \<^verbatim>\<open>uuidv4()\<close> returns, the first and second reading of
  \<^verbatim>\<open>new Date().toISOString()\<close>, the number of items in the page that its scan or
  query reads, and whether the queue accepts its message. A response is a status code and the fields of its
  JSON body other than the human-readable \<^verbatim>\<open>message\<close> and \<^verbatim>\<open>error\<close> texts.
\<close>

record event =
  pathParameters :: "(string \<times> string) list option"
  body :: body
  http_method :: string

record env =
  uuidv4 :: string
  now_first :: string
  now_second :: string
  page_items :: nat
  queue_accepts :: bool

record response =
  statusCode :: nat
  payload :: "(string \<times> json) list"

definition buildResponse :: "nat \<Rightarrow> (string \<times> json) list \<Rightarrow> response" where
  "buildResponse code flds = \<lparr>statusCode = code, payload = flds\<rparr>"

text \<open>
  Each handler is a \<^verbatim>\<open>try\<close> block whose \<^verbatim>\<open>catch\<close> answers 500. The only
  statement of a handler that changes the world is \<^verbatim>\<open>sqs.sendMessage\<close>, and nothing
  after it throws, so the world at the \<^verbatim>\<open>catch\<close> is the one the handler started in.
  The messages of the 404 and 409 answers are template literals over request values.
\<close>

definition catch500 :: "world \<Rightarrow> error + response \<times> world \<Rightarrow> response \<times> world" where
  "catch500 w r = (case r of Inl e \<Rightarrow> (buildResponse 500 [], w) | Inr x \<Rightarrow> x)"

fun path_param :: "(string \<times> string) list option \<Rightarrow> string \<Rightarrow> error + jsval" where
  "path_param None k = Inl TypeError"
| "path_param (Some ps) k = Inr (map_option JStr (map_of ps k))"

text \<open>\<^verbatim>\<open>createOrganization\<close> (POST /organizations).\<close>

definition createOrganization_try :: "env \<Rightarrow> event \<Rightarrow> world \<Rightarrow> error + response \<times> world" where
  "createOrganization_try en ev w =
     (case JSON_parse (body ev) of
        Inl e \<Rightarrow> Inl e
      | Inr data \<Rightarrow>
     (case props (Some data) of
        Inl e \<Rightarrow> Inl e
      | Inr d \<Rightarrow>
          let name = d ''name''; description = d ''description'' in
          if \<not> truthy name \<or> \<not> truthy description then Inr (buildResponse 400 [], w)
          else
            (case dynamoDb_scan ORGANIZATIONS_TABLE ''name'' name (page_items en) w of
               Inl e \<Rightarrow> Inl e
             | Inr Items \<Rightarrow>
                 if length Items > 0 then Inr (buildResponse 409 [], w)
                 else
                   let orgId = JStr (uuidv4 en);
                       message =
                         [(''operation'', Some (JStr ''createOrganization'')),
                          (''data'', Some (JObj (defined_fields
                             [(''orgId'', Some orgId),
                              (''name'', name),
                              (''description'', description),
                              (''createdAt'', Some (JStr (now_first en))),
                              (''updatedAt'', Some (JStr (now_second en)))])))]
                   in (case sqs_sendMessage (queue_accepts en) (JSON_stringify message) w of
                         Inl e \<Rightarrow> Inl e
                       | Inr w' \<Rightarrow> Inr (buildResponse 202 [(''orgId'', orgId)], w')))))"

definition createOrganization :: "env \<Rightarrow> event \<Rightarrow> world \<Rightarrow> response \<times> world" where
  "createOrganization en ev w = catch500 w (createOrganization_try en ev w)"

text \<open>\<^verbatim>\<open>createOrUpdateUser\<close> (POST and PUT /organizations/{orgId}/users).\<close>

definition createOrUpdateUser_try :: "env \<Rightarrow> event \<Rightarrow> world \<Rightarrow> error + response \<times> world" where
  "createOrUpdateUser_try en ev w =
     (case path_param (pathParameters ev) ''orgId'' of
        Inl e \<Rightarrow> Inl e
      | Inr orgId \<Rightarrow>
     (case JSON_parse (body ev) of
        Inl e \<Rightarrow> Inl e
      | Inr data \<Rightarrow>
     (case props (Some data) of
        Inl e \<Rightarrow> Inl e
      | Inr d \<Rightarrow>
          let userId = d ''userId''; name = d ''name''; email = d ''email'' in
          if \<not> truthy orgId \<or> \<not> truthy name \<or> \<not> truthy email
          then Inr (buildResponse 400 [], w)
          else
            (case dynamoDb_get ORGANIZATIONS_TABLE orgId w of
               Inl e \<Rightarrow> Inl e
             | Inr None \<Rightarrow> template [orgId] (buildResponse 404 [], w)
             | Inr (Some org) \<Rightarrow>
                 let newUserId = (if truthy userId then userId else Some (JStr (uuidv4 en))) in
                 (case dynamoDb_query orgId email (page_items en) w of
                    Inl e \<Rightarrow> Inl e
                  | Inr Items \<Rightarrow>
                      if (case Items of
                            [] \<Rightarrow> False
                          | existingUser # rest \<Rightarrow>
                              http_method ev = ''POST'' \<or>
                              (http_method ev = ''PUT'' \<and>
                               \<not> strict_eq (map_of existingUser ''userId'') newUserId))
                      then template [email] (buildResponse 409 [], w)
                      else
                        let message =
                              [(''operation'',
                                Some (JStr (if http_method ev = ''POST''
                                            then ''createUser'' else ''updateUser''))),
                               (''data'', Some (JObj (defined_fields
                                  [(''orgId'', orgId),
                                   (''userId'', newUserId),
                                   (''name'', name),
                                   (''email'', email),
                                   (''createdAt'', Some (JStr (now_first en))),
                                   (''updatedAt'', Some (JStr (now_second en)))])))]
                        in (case sqs_sendMessage (queue_accepts en)
                                   (JSON_stringify message) w of
                              Inl e \<Rightarrow> Inl e
                            | Inr w' \<Rightarrow>
                                Inr (buildResponse 202
                                       (defined_fields [(''userId'', newUserId)]), w')))))))"

definition createOrUpdateUser :: "env \<Rightarrow> event \<Rightarrow> world \<Rightarrow> response \<times> world" where
  "createOrUpdateUser en ev w = catch500 w (createOrUpdateUser_try en ev w)"

text \<open>\<^verbatim>\<open>updateOrganization\<close> (PUT /organizations).\<close>

definition updateOrganization_try :: "env \<Rightarrow> event \<Rightarrow> world \<Rightarrow> error + response \<times> world" where
  "updateOrganization_try en ev w =
     (case JSON_parse (body ev) of
        Inl e \<Rightarrow> Inl e
      | Inr data \<Rightarrow>
     (case props (Some data) of
        Inl e \<Rightarrow> Inl e
      | Inr d \<Rightarrow>
          let orgId = d ''orgId''; name = d ''name''; description = d ''description'' in
          if \<not> truthy orgId then Inr (buildResponse 400 [], w)
          else if \<not> truthy name \<and> \<not> truthy description then Inr (buildResponse 400 [], w)
          else
            (case dynamoDb_get ORGANIZATIONS_TABLE orgId w of
               Inl e \<Rightarrow> Inl e
             | Inr None \<Rightarrow> template [orgId] (buildResponse 404 [], w)
             | Inr (Some org) \<Rightarrow>
                 let message =
                       [(''operation'', Some (JStr ''updateOrganization'')),
                        (''data'', Some (JObj (defined_fields
                           [(''orgId'', orgId),
                            (''name'', name),
                            (''description'', description),
                            (''updatedAt'', Some (JStr (now_first en)))])))]
                 in (case sqs_sendMessage (queue_accepts en) (JSON_stringify message) w of
                       Inl e \<Rightarrow> Inl e
                     | Inr w' \<Rightarrow>
                         Inr (buildResponse 202 (defined_fields [(''orgId'', orgId)]), w')))))"

definition updateOrganization :: "env \<Rightarrow> event \<Rightarrow> world \<Rightarrow> response \<times> world" where
  "updateOrganization en ev w = catch500 w (updateOrganization_try en ev w)"

text \<open>\<^verbatim>\<open>getUser\<close> (GET /organizations/{orgId}/users/{userId}).\<close>

definition getUser_try :: "event \<Rightarrow> world \<Rightarrow> error + response \<times> world" where
  "getUser_try ev w =
     (case path_param (pathParameters ev) ''orgId'' of
        Inl e \<Rightarrow> Inl e
      | Inr orgId \<Rightarrow>
     (case path_param (pathParameters ev) ''userId'' of
        Inl e \<Rightarrow> Inl e
      | Inr userId \<Rightarrow>
          if \<not> truthy orgId \<or> \<not> truthy userId then Inr (buildResponse 400 [], w)
          else
            (case dynamoDb_get USERS_TABLE userId w of
               Inl e \<Rightarrow> Inl e
             | Inr None \<Rightarrow> template [userId, orgId] (buildResponse 404 [], w)
             | Inr (Some Item) \<Rightarrow>
                 if map_of Item ''orgId'' \<noteq> orgId
                 then template [userId, orgId] (buildResponse 404 [], w)
                 else Inr (buildResponse 200 [(''user'', JObj Item)], w))))"

definition getUser :: "event \<Rightarrow> world \<Rightarrow> response \<times> world" where
  "getUser ev w = catch500 w (getUser_try ev w)"

section \<open>Notions used by the properties\<close>

text \<open>
  An Intent is the message a producer sends:
  \<^verbatim>\<open>JSON.stringify({ operation, data })\<close> with \<^verbatim>\<open>data\<close> an object.
\<close>

definition intent :: "string \<Rightarrow> (string \<times> json) list \<Rightarrow> body" where
  "intent operation d =
     JSON_stringify [(''operation'', Some (JStr operation)), (''data'', Some (JObj d))]"

text \<open>The field \<open>k\<close> of a parsed request or message body, as destructuring reads it.\<close>

fun field :: "json \<Rightarrow> string \<Rightarrow> jsval" where
  "field (JObj fs) k = map_of fs k"
| "field v k = None"

text \<open>
  The item a table stores under a key value, and the value of one attribute of that
  item (undefined when there is no item or no such attribute).
\<close>

definition stored :: "table \<Rightarrow> jsval \<Rightarrow> item option" where
  "stored tb k = (case key_string k of None \<Rightarrow> None | Some s \<Rightarrow> map_of tb s)"

definition attr :: "table \<Rightarrow> jsval \<Rightarrow> string \<Rightarrow> jsval" where
  "attr tb k a = (case stored tb k of None \<Rightarrow> None | Some it \<Rightarrow> map_of it a)"

text \<open>
  Scoped uniqueness of e-mail addresses: no two users stored under different keys have
  the same \<^verbatim>\<open>orgId\<close> and the same \<^verbatim>\<open>email\<close>.
\<close>

definition scoped_email_unique :: "table \<Rightarrow> bool" where
  "scoped_email_unique us =
     list_all (\<lambda>(k1, u1).
       list_all (\<lambda>(k2, u2).
         \<not> (k1 \<noteq> k2 \<and> map_of u1 ''orgId'' = map_of u2 ''orgId'' \<and>
            map_of u1 ''email'' = map_of u2 ''email'')) us) us"

section \<open>Example data\<close>

text \<open>Concrete worlds, Intents and requests at which the properties below are evaluated.\<close>

definition empty_world :: world where
  "empty_world = \<lparr>organizations = [], users = [], queue = []\<rparr>"

definition alice :: "(string \<times> json) list" where
  "alice =
     [(''userId'', JStr ''u1''), (''orgId'', JStr ''o1''), (''name'', JStr ''Alice''),
      (''email'', JStr ''alice@example.org''), (''createdAt'', JStr ''2024-01-01T00:00:00.000Z''),
      (''updatedAt'', JStr ''2024-01-01T00:00:00.000Z'')]"

definition acme :: item where
  "acme =
     [(''orgId'', JStr ''o1''), (''name'', JStr ''Acme''), (''description'', JStr ''Makers''),
      (''createdAt'', JStr ''2024-01-01T00:00:00.000Z''),
      (''updatedAt'', JStr ''2024-01-01T00:00:00.000Z'')]"

definition acme_world :: world where
  "acme_world = \<lparr>organizations = [(''o1'', acme)], users = [(''u1'', alice)], queue = []\<rparr>"

definition patch :: "(string \<times> json) list" where
  "patch =
     [(''orgId'', JStr ''o1''), (''userId'', JStr ''u1''), (''description'', JStr ''Sellers''),
      (''updatedAt'', JStr ''2024-02-02T00:00:00.000Z'')]"

definition acme_patched :: world where
  "acme_patched = acme_world\<lparr>organizations :=
     [(''o1'', [(''orgId'', JStr ''o1''), (''name'', JStr ''Acme''),
                (''description'', JStr ''Sellers''),
                (''createdAt'', JStr ''2024-01-01T00:00:00.000Z''),
                (''updatedAt'', JStr ''2024-02-02T00:00:00.000Z'')])]\<rparr>"

definition alice_patched :: world where
  "alice_patched = acme_world\<lparr>users :=
     [(''u1'', [(''userId'', JStr ''u1''), (''orgId'', JStr ''o1''), (''name'', JStr ''Alice''),
                (''email'', JStr ''alice@example.org''),
                (''createdAt'', JStr ''2024-01-01T00:00:00.000Z''),
                (''updatedAt'', JStr ''2024-02-02T00:00:00.000Z'')])]\<rparr>"

definition env0 :: env where
  "env0 = \<lparr>uuidv4 = ''3f2a-generated'', now_first = ''2024-03-03T00:00:00.000Z'',
            now_second = ''2024-03-03T00:00:00.001Z'', page_items = 100,
            queue_accepts = True\<rparr>"

definition post_globex :: event where
  "post_globex =
     \<lparr>pathParameters = None,
      body = Some (JObj [(''name'', JStr ''Globex''), (''description'', JStr ''Energy'')]),
      http_method = ''POST''\<rparr>"

definition put_acme :: event where
  "put_acme =
     \<lparr>pathParameters = None,
      body = Some (JObj [(''orgId'', JStr ''o1''), (''description'', JStr ''Sellers'')]),
      http_method = ''PUT''\<rparr>"

definition put_missing :: event where
  "put_missing =
     \<lparr>pathParameters = None,
      body = Some (JObj [(''orgId'', JStr ''missing-id''), (''name'', JStr ''X'')]),
      http_method = ''PUT''\<rparr>"

definition get_alice :: event where
  "get_alice =
     \<lparr>pathParameters = Some [(''orgId'', ''o1''), (''userId'', ''u1'')],
      body = None, http_method = ''GET''\<rparr>"

definition two_org_world :: world where
  "two_org_world =
     \<lparr>organizations =
        [(''oA'', [(''orgId'', JStr ''oA''), (''name'', JStr ''Alpha''),
                   (''description'', JStr ''First''),
                   (''createdAt'', JStr ''2024-01-01T00:00:00.000Z''),
                   (''updatedAt'', JStr ''2024-01-01T00:00:00.000Z'')]),
         (''oB'', [(''orgId'', JStr ''oB''), (''name'', JStr ''Beta''),
                   (''description'', JStr ''Second''),
                   (''createdAt'', JStr ''2024-01-01T00:00:00.000Z''),
                   (''updatedAt'', JStr ''2024-01-01T00:00:00.000Z'')])],
      users =
        [(''u1'', [(''userId'', JStr ''u1''), (''orgId'', JStr ''oB''), (''name'', JStr ''Bob''),
                   (''email'', JStr ''bob@example.org''),
                   (''createdAt'', JStr ''2024-01-02T00:00:00.000Z''),
                   (''updatedAt'', JStr ''2024-01-02T00:00:00.000Z'')]),
         (''u2'', [(''userId'', JStr ''u2''), (''orgId'', JStr ''oB''), (''name'', JStr ''Carol''),
                   (''email'', JStr ''carol@example.org''),
                   (''createdAt'', JStr ''2024-01-02T00:00:00.000Z''),
                   (''updatedAt'', JStr ''2024-01-02T00:00:00.000Z'')])],
      queue = []\<rparr>"

definition put_bob :: event where
  "put_bob =
     \<lparr>pathParameters = Some [(''orgId'', ''oA'')],
      body = Some (JObj [(''userId'', JStr ''u1''), (''name'', JStr ''Bob''),
                         (''email'', JStr ''carol@example.org'')]),
      http_method = ''PUT''\<rparr>"

definition put_bob_intent :: body where
  "put_bob_intent =
     intent ''updateUser''
       [(''orgId'', JStr ''oA''), (''userId'', JStr ''u1''), (''name'', JStr ''Bob''),
        (''email'', JStr ''carol@example.org''),
        (''createdAt'', JStr ''2024-03-03T00:00:00.000Z''),
        (''updatedAt'', JStr ''2024-03-03T00:00:00.001Z'')]"

definition put_taken :: event where
  "put_taken =
     \<lparr>pathParameters = Some [(''orgId'', ''o1'')],
      body = Some (JObj [(''userId'', JStr ''u9''), (''name'', JStr ''Al''),
                         (''email'', JStr ''alice@example.org'')]),
      http_method = ''PUT''\<rparr>"

definition put_new :: event where
  "put_new =
     \<lparr>pathParameters = Some [(''orgId'', ''o1'')],
      body = Some (JObj [(''userId'', JStr ''u9''), (''name'', JStr ''Al''),
                         (''email'', JStr ''al@example.org'')]),
      http_method = ''PUT''\<rparr>"

definition post_null :: event where
  "post_null = \<lparr>pathParameters = None, body = Some JNull, http_method = ''POST''\<rparr>"

definition post_nobody :: event where
  "post_nobody = \<lparr>pathParameters = None, body = None, http_method = ''POST''\<rparr>"

definition put_null :: event where
  "put_null = \<lparr>pathParameters = None, body = Some JNull, http_method = ''PUT''\<rparr>"

definition put_seven :: event where
  "put_seven =
     \<lparr>pathParameters = None,
      body = Some (JObj [(''orgId'', JNum 7), (''name'', JStr ''X'')]),
      http_method = ''PUT''\<rparr>"

definition get_oversize :: event where
  "get_oversize =
     \<lparr>pathParameters = Some [(''orgId'', ''o1''), (''userId'', replicate 2049 (CHR ''u''))],
      body = None, http_method = ''GET''\<rparr>"

definition env_short_page :: env where
  "env_short_page = env0\<lparr>page_items := 1\<rparr>"

definition post_beta :: event where
  "post_beta =
     \<lparr>pathParameters = None,
      body = Some (JObj [(''name'', JStr ''Beta''), (''description'', JStr ''Again'')]),
      http_method = ''POST''\<rparr>"

section \<open>Facts about the store operations\<close>

lemma set_attrs_other:
  "set_attrs it as = Inr it' \<Longrightarrow> a \<notin> fst ` set as \<Longrightarrow> map_of it' a = map_of it a"
proof (induction it as rule: set_attrs.induct)
  case (1 it)
  then show ?case by simp
next
  case (2 it a as)
  then show ?case by simp
next
  case (3 it b v as)
  then show ?case by (simp add: update_conv')
qed

lemma set_attrs_assigned:
  "set_attrs it as = Inr it' \<Longrightarrow> distinct (map fst as) \<Longrightarrow> (a, v) \<in> set as \<Longrightarrow>
   v \<noteq> None \<and> map_of it' a = v"
proof (induction it as rule: set_attrs.induct)
  case (1 it)
  then show ?case by simp
next
  case (2 it a as)
  then show ?case by simp
next
  case (3 it b x as)
  show ?case
  proof (cases "(a, v) = (b, Some x)")
    case True
    from 3 have "b \<notin> fst ` set as" by simp
    with 3 have "map_of it' b = map_of (AList.update b x it) b"
      using set_attrs_other by simp
    with True show ?thesis by (simp add: update_conv')
  next
    case False
    with 3 have "(a, v) \<in> set as" by auto
    with 3 show ?thesis by simp
  qed
qed

lemma set_attrs_fixed:
  "\<forall>(a, v) \<in> set as. v \<noteq> None \<and> map_of it a = v \<Longrightarrow> set_attrs it as = Inr it"
proof (induction it as rule: set_attrs.induct)
  case (1 it)
  then show ?case by simp
next
  case (2 it a as)
  then show ?case by simp
next
  case (3 it b x as)
  then have "AList.update b x it = it" by (simp add: update_triv)
  with 3 show ?case by simp
qed

lemma set_attrs_twice:
  assumes "set_attrs it as = Inr it'" and "distinct (map fst as)"
  shows "set_attrs it' as = Inr it'"
proof (rule set_attrs_fixed, clarify)
  fix a v assume "(a, v) \<in> set as"
  from set_attrs_assigned [OF assms this] show "v \<noteq> None \<and> map_of it' a = v" .
qed

lemma table_of_with_table [simp]: "table_of t (with_table t tb w) = tb"
  by (cases t) simp_all

lemma with_table_twice [simp]: "with_table t tb (with_table t tb' w) = with_table t tb w"
  by (cases t) simp_all

lemma dynamoDb_put_twice:
  "dynamoDb_put t Item w = Inr w' \<Longrightarrow> dynamoDb_put t Item w' = Inr w'"
  by (auto simp: dynamoDb_put_def Let_def update_conv' update_triv split: option.splits if_splits)

lemma dynamoDb_update_twice:
  assumes "dynamoDb_update t k as w = Inr w'" and "distinct (map fst as)"
  shows "dynamoDb_update t k as w' = Inr w'"
proof -
  from assms(1) obtain s where s: "key_string k = Some s"
    by (auto simp: dynamoDb_update_def split: option.splits)
  define old where "old = (case map_of (table_of t w) s of None \<Rightarrow> [(hash_key t, JStr s)] | Some it \<Rightarrow> it)"
  from assms(1) s obtain new where new: "set_attrs old as = Inr new"
    and w': "w' = with_table t (AList.update s new (table_of t w)) w"
    by (auto simp: dynamoDb_update_def Let_def old_def split: sum.splits)
  have "map_of (table_of t w') s = Some new" by (simp add: w' update_conv')
  moreover have "set_attrs new as = Inr new" using set_attrs_twice [OF new assms(2)] .
  moreover have "AList.update s new (table_of t w') = table_of t w'"
    by (simp add: w' update_conv' update_triv)
  ultimately show ?thesis
    by (simp add: dynamoDb_update_def s Let_def w')
qed


lemma props_Some_cases:
  "props (Some v) = (if v = JNull then Inl TypeError else Inr (field v))"
  by (cases v) (auto simp: fun_eq_iff)

lemma processRecord_shape:
  "(\<exists>e. \<forall>w. processRecord b w = Inl e) \<or>
   (\<forall>w. processRecord b w = Inr w) \<or>
   (\<exists>t Item. \<forall>w. processRecord b w = dynamoDb_put t Item w) \<or>
   (\<exists>t k as. distinct (map fst as) \<and> (\<forall>w. processRecord b w = dynamoDb_update t k as w))"
proof (cases "JSON_parse b")
  case (Inl e)
  then show ?thesis by (simp add: processRecord_def)
next
  case v: (Inr v)
  show ?thesis
  proof (cases "props (Some v)")
    case (Inl e)
    with v show ?thesis by (simp add: processRecord_def)
  next
    case m: (Inr m)
    consider (co) "m ''operation'' = Some (JStr ''createOrganization'')"
      | (uo) "m ''operation'' = Some (JStr ''updateOrganization'')"
      | (cu) "m ''operation'' = Some (JStr ''createUser'')"
      | (uu) "m ''operation'' = Some (JStr ''updateUser'')"
      | (other) "m ''operation'' \<noteq> Some (JStr ''createOrganization'')"
          "m ''operation'' \<noteq> Some (JStr ''updateOrganization'')"
          "m ''operation'' \<noteq> Some (JStr ''createUser'')"
          "m ''operation'' \<noteq> Some (JStr ''updateUser'')"
      by blast
    then show ?thesis
    proof cases
      case other
      show ?thesis
      proof (cases "interpolates (m ''operation'')")
        case True
        with v m other have "\<forall>w. processRecord b w = Inr w"
          by (simp add: processRecord_def)
        then show ?thesis by blast
      next
        case False
        with v m have "\<forall>w. processRecord b w = Inl TypeError"
          by (simp add: processRecord_def)
        then show ?thesis by blast
      qed
    next
      case co
      show ?thesis
      proof (cases "props (m ''data'')")
        case (Inl e)
        with v m co have "\<forall>w. processRecord b w = Inl e"
          by (simp add: processRecord_def)
        then show ?thesis by blast
      next
        case (Inr d)
        with v m co have "\<forall>w. processRecord b w =
            dynamoDb_put ORGANIZATIONS_TABLE
              [(''orgId'', d ''orgId''), (''name'', d ''name''),
               (''description'', d ''description''), (''createdAt'', d ''createdAt''),
               (''updatedAt'', d ''updatedAt'')] w"
          by (simp add: processRecord_def)
        then show ?thesis by blast
      qed
    next
      case cu
      show ?thesis
      proof (cases "props (m ''data'')")
        case (Inl e)
        with v m cu have "\<forall>w. processRecord b w = Inl e"
          by (simp add: processRecord_def)
        then show ?thesis by blast
      next
        case (Inr d)
        with v m cu have "\<forall>w. processRecord b w =
            dynamoDb_put USERS_TABLE
              [(''userId'', d ''userId''), (''orgId'', d ''orgId''), (''name'', d ''name''),
               (''email'', d ''email''), (''createdAt'', d ''createdAt''),
               (''updatedAt'', d ''updatedAt'')] w"
          by (simp add: processRecord_def)
        then show ?thesis by blast
      qed
    next
      case uo
      show ?thesis
      proof (cases "props (m ''data'')")
        case (Inl e)
        with v m uo have "\<forall>w. processRecord b w = Inl e"
          by (simp add: processRecord_def)
        then show ?thesis by blast
      next
        case (Inr d)
        define as where "as =
           (if truthy (d ''name'') then [(''name'', d ''name'')] else []) @
           (if truthy (d ''description'') then [(''description'', d ''description'')] else []) @
           [(''updatedAt'', d ''updatedAt'')]"
        have "distinct (map fst as)" by (simp add: as_def)
        moreover from Inr v m uo have "\<forall>w. processRecord b w =
            dynamoDb_update ORGANIZATIONS_TABLE (d ''orgId'') as w"
          by (simp add: processRecord_def as_def)
        ultimately show ?thesis by blast
      qed
    next
      case uu
      show ?thesis
      proof (cases "props (m ''data'')")
        case (Inl e)
        with v m uu have "\<forall>w. processRecord b w = Inl e"
          by (simp add: processRecord_def)
        then show ?thesis by blast
      next
        case (Inr d)
        define as where "as =
           (if truthy (d ''name'') then [(''name'', d ''name'')] else []) @
           (if truthy (d ''email'') then [(''email'', d ''email'')] else []) @
           [(''updatedAt'', d ''updatedAt'')]"
        have "distinct (map fst as)" by (simp add: as_def)
        moreover from Inr v m uu have "\<forall>w. processRecord b w =
            dynamoDb_update USERS_TABLE (d ''userId'') as w"
          by (simp add: processRecord_def as_def)
        ultimately show ?thesis by blast
      qed
    qed
  qed
qed

lemma processRecord_twice:
  assumes "processRecord b w = Inr w'"
  shows "processRecord b w' = Inr w'"
proof -
  consider (err) e where "\<forall>w. processRecord b w = Inl e"
    | (skip) "\<forall>w. processRecord b w = Inr w"
    | (put) t Item where "\<forall>w. processRecord b w = dynamoDb_put t Item w"
    | (upd) t k as where "distinct (map fst as)"
        "\<forall>w. processRecord b w = dynamoDb_update t k as w"
    using processRecord_shape [of b] by blast
  then show ?thesis
  proof cases
    case err
    with assms show ?thesis by simp
  next
    case skip
    with assms show ?thesis by simp
  next
    case put
    with assms show ?thesis by (simp add: dynamoDb_put_twice)
  next
    case upd
    with assms show ?thesis by (simp add: dynamoDb_update_twice)
  qed
qed

lemma processSqsMessages_twice:
  "processSqsMessages [b, b] w = processSqsMessages [b] w"
  by (auto split: sum.splits dest: processRecord_twice)

lemma processRecord_intent:
  "processRecord (intent operation d) w =
     (if operation = ''createOrganization'' then
        dynamoDb_put ORGANIZATIONS_TABLE
          [(''orgId'', map_of d ''orgId''), (''name'', map_of d ''name''),
           (''description'', map_of d ''description''),
           (''createdAt'', map_of d ''createdAt''),
           (''updatedAt'', map_of d ''updatedAt'')] w
      else if operation = ''updateOrganization'' then
        dynamoDb_update ORGANIZATIONS_TABLE (map_of d ''orgId'')
          ((if truthy (map_of d ''name'') then [(''name'', map_of d ''name'')] else []) @
           (if truthy (map_of d ''description'')
            then [(''description'', map_of d ''description'')] else []) @
           [(''updatedAt'', map_of d ''updatedAt'')]) w
      else if operation = ''createUser'' then
        dynamoDb_put USERS_TABLE
          [(''userId'', map_of d ''userId''), (''orgId'', map_of d ''orgId''),
           (''name'', map_of d ''name''), (''email'', map_of d ''email''),
           (''createdAt'', map_of d ''createdAt''),
           (''updatedAt'', map_of d ''updatedAt'')] w
      else if operation = ''updateUser'' then
        dynamoDb_update USERS_TABLE (map_of d ''userId'')
          ((if truthy (map_of d ''name'') then [(''name'', map_of d ''name'')] else []) @
           (if truthy (map_of d ''email'') then [(''email'', map_of d ''email'')] else []) @
           [(''updatedAt'', map_of d ''updatedAt'')]) w
      else Inr w)"
  by (simp add: intent_def JSON_stringify_def JSON_parse_def processRecord_def Let_def)


lemma set_attrs_lookup:
  assumes "set_attrs it as = Inr it'" and "distinct (map fst as)"
  shows "map_of it' a = (case map_of as a of None \<Rightarrow> map_of it a | Some v \<Rightarrow> v)"
proof (cases "map_of as a")
  case None
  then have "a \<notin> fst ` set as" by (simp add: map_of_eq_None_iff)
  with assms(1) None show ?thesis by (simp add: set_attrs_other)
next
  case (Some v)
  then have "(a, v) \<in> set as" by (rule map_of_SomeD)
  from set_attrs_assigned [OF assms this] Some show ?thesis by simp
qed

lemma key_string_Some:
  "key_string k = Some s \<Longrightarrow> k = Some (JStr s) \<and> s \<noteq> [] \<and> length s \<le> 2048"
  by (cases k rule: key_string.cases) (auto split: if_splits)

lemma dynamoDb_update_stored:
  assumes "dynamoDb_update t k as w = Inr w'"
  shows "stored (table_of t w') k \<noteq> None"
  using assms
  by (auto simp: dynamoDb_update_def stored_def Let_def update_conv'
           split: option.splits sum.splits)

lemma dynamoDb_update_attr:
  assumes "dynamoDb_update t k as w = Inr w'" and "distinct (map fst as)"
  shows "attr (table_of t w') k a =
     (case map_of as a of
        Some v \<Rightarrow> v
      | None \<Rightarrow> if stored (table_of t w) k = None
                then (if a = hash_key t then k else None)
                else attr (table_of t w) k a)"
proof -
  from assms(1) obtain s where s: "key_string k = Some s"
    by (auto simp: dynamoDb_update_def split: option.splits)
  define old where "old =
    (case map_of (table_of t w) s of None \<Rightarrow> [(hash_key t, JStr s)] | Some it \<Rightarrow> it)"
  from assms(1) s obtain new where new: "set_attrs old as = Inr new"
    and w': "w' = with_table t (AList.update s new (table_of t w)) w"
    by (auto simp: dynamoDb_update_def Let_def old_def split: sum.splits)
  have "attr (table_of t w') k a = map_of new a"
    by (simp add: attr_def stored_def s w' update_conv')
  also have "\<dots> = (case map_of as a of None \<Rightarrow> map_of old a | Some v \<Rightarrow> v)"
    by (rule set_attrs_lookup [OF new assms(2)])
  also have "map_of old a =
     (if stored (table_of t w) k = None then (if a = hash_key t then k else None)
      else attr (table_of t w) k a)"
    using key_string_Some [OF s]
    by (auto simp: old_def attr_def stored_def s split: option.splits)
  finally show ?thesis by (simp split: option.splits)
qed

lemma dynamoDb_update_assigned:
  assumes "dynamoDb_update t k as w = Inr w'" and "(a, v) \<in> set as"
  shows "v \<noteq> None"
proof -
  have "set_attrs it as = Inr it' \<Longrightarrow> v \<noteq> None" for it it'
    using assms(2) by (induction it as rule: set_attrs.induct) auto
  with assms(1) show ?thesis
    by (auto simp: dynamoDb_update_def Let_def split: option.splits sum.splits)
qed



lemma processSqsMessages_single:
  "processSqsMessages [b] w =
     (case processRecord b w of Inl e \<Rightarrow> (Inl e, w) | Inr w' \<Rightarrow> (Inr 200, w'))"
  by (simp split: sum.splits)

lemma processSqsMessages_append:
  "processSqsMessages (xs @ ys) w =
     (case processSqsMessages xs w of
        (Inl e, w') \<Rightarrow> (Inl e, w')
      | (Inr c, w') \<Rightarrow> processSqsMessages ys w')"
  by (induction xs arbitrary: w) (auto split: sum.splits)

lemma defined_fields_absent:
  "k \<notin> fst ` set fs \<Longrightarrow> map_of (defined_fields fs) k = None"
  by (induction fs rule: defined_fields.induct) auto

lemma map_of_defined_fields:
  "distinct (map fst fs) \<Longrightarrow>
   map_of (defined_fields fs) k = (case map_of fs k of None \<Rightarrow> None | Some v \<Rightarrow> v)"
  by (induction fs rule: defined_fields.induct) (auto simp: defined_fields_absent)

lemma dynamoDb_put_stored:
  assumes "dynamoDb_put t Item w = Inr w'"
  shows "stored (table_of t w') (map_of (defined_fields Item) (hash_key t)) =
           Some (defined_fields Item)"
  using assms
  by (auto simp: dynamoDb_put_def Let_def stored_def update_conv'
           split: option.splits if_splits)

section \<open>Idempotence of the create Intents\<close>

text \<open>
  Claim C1. For every data object \<open>d\<close> and every world, delivering a
  \<^verbatim>\<open>createOrganization\<close> (or \<^verbatim>\<open>createUser\<close>) Intent twice leaves exactly the world
  that delivering it once leaves, and gives the same outcome. When the apply succeeds,
  the item stored under the Intent's \<^verbatim>\<open>orgId\<close> (\<^verbatim>\<open>userId\<close>) is the item built from the
  Intent's fields alone, whatever was stored there before.
\<close>

theorem create_intent_idempotent:
  "processSqsMessages [intent ''createOrganization'' d, intent ''createOrganization'' d] w =
     processSqsMessages [intent ''createOrganization'' d] w \<and>
   processSqsMessages [intent ''createUser'' d, intent ''createUser'' d] w =
     processSqsMessages [intent ''createUser'' d] w \<and>
   (processSqsMessages [intent ''createOrganization'' d] w = (Inr 200, w1) \<longrightarrow>
      stored (organizations w1) (map_of d ''orgId'') =
        Some (defined_fields
          [(''orgId'', map_of d ''orgId''), (''name'', map_of d ''name''),
           (''description'', map_of d ''description''),
           (''createdAt'', map_of d ''createdAt''),
           (''updatedAt'', map_of d ''updatedAt'')])) \<and>
   (processSqsMessages [intent ''createUser'' d] w = (Inr 200, w2) \<longrightarrow>
      stored (users w2) (map_of d ''userId'') =
        Some (defined_fields
          [(''userId'', map_of d ''userId''), (''orgId'', map_of d ''orgId''),
           (''name'', map_of d ''name''), (''email'', map_of d ''email''),
           (''createdAt'', map_of d ''createdAt''),
           (''updatedAt'', map_of d ''updatedAt'')]))"
proof (intro conjI impI)
  show "processSqsMessages [intent ''createOrganization'' d, intent ''createOrganization'' d] w =
     processSqsMessages [intent ''createOrganization'' d] w"
    by (rule processSqsMessages_twice)
  show "processSqsMessages [intent ''createUser'' d, intent ''createUser'' d] w =
     processSqsMessages [intent ''createUser'' d] w"
    by (rule processSqsMessages_twice)
next
  let ?Item = "[(''orgId'', map_of d ''orgId''), (''name'', map_of d ''name''),
           (''description'', map_of d ''description''),
           (''createdAt'', map_of d ''createdAt''),
           (''updatedAt'', map_of d ''updatedAt'')]"
  assume "processSqsMessages [intent ''createOrganization'' d] w = (Inr 200, w1)"
  then have "dynamoDb_put ORGANIZATIONS_TABLE ?Item w = Inr w1"
    by (simp add: processSqsMessages_single processRecord_intent split: sum.splits)
  from dynamoDb_put_stored [OF this]
  show "stored (organizations w1) (map_of d ''orgId'') = Some (defined_fields ?Item)"
    by (simp add: map_of_defined_fields split: option.splits)
next
  let ?Item = "[(''userId'', map_of d ''userId''), (''orgId'', map_of d ''orgId''),
           (''name'', map_of d ''name''), (''email'', map_of d ''email''),
           (''createdAt'', map_of d ''createdAt''),
           (''updatedAt'', map_of d ''updatedAt'')]"
  assume "processSqsMessages [intent ''createUser'' d] w = (Inr 200, w2)"
  then have "dynamoDb_put USERS_TABLE ?Item w = Inr w2"
    by (simp add: processSqsMessages_single processRecord_intent split: sum.splits)
  from dynamoDb_put_stored [OF this]
  show "stored (users w2) (map_of d ''userId'') = Some (defined_fields ?Item)"
    by (simp add: map_of_defined_fields split: option.splits)
qed

theorem create_intent_idempotent_witness:
  "processSqsMessages [intent ''createOrganization'' alice] empty_world =
     (Inr 200, empty_world\<lparr>organizations :=
        [(''o1'', [(''orgId'', JStr ''o1''), (''name'', JStr ''Alice''),
                   (''createdAt'', JStr ''2024-01-01T00:00:00.000Z''),
                   (''updatedAt'', JStr ''2024-01-01T00:00:00.000Z'')])]\<rparr>) \<and>
   processSqsMessages [intent ''createOrganization'' alice, intent ''createOrganization'' alice]
       empty_world =
     processSqsMessages [intent ''createOrganization'' alice] empty_world \<and>
   processSqsMessages [intent ''createUser'' alice] empty_world =
     (Inr 200, empty_world\<lparr>users := [(''u1'', alice)]\<rparr>) \<and>
   stored (users (empty_world\<lparr>users := [(''u1'', alice)]\<rparr>)) (map_of alice ''userId'') =
     Some alice"
  using create_intent_idempotent
    [of alice empty_world
        "empty_world\<lparr>organizations :=
           [(''o1'', [(''orgId'', JStr ''o1''), (''name'', JStr ''Alice''),
                      (''createdAt'', JStr ''2024-01-01T00:00:00.000Z''),
                      (''updatedAt'', JStr ''2024-01-01T00:00:00.000Z'')])]\<rparr>"
        "empty_world\<lparr>users := [(''u1'', alice)]\<rparr>"]
  by (simp add: processSqsMessages_single processRecord_intent dynamoDb_put_def index_ok_def
        alice_def empty_world_def)

section \<open>Idempotence of the update Intents\<close>

lemma update_intent_effect:
  assumes upd: "dynamoDb_update t (map_of d (hash_key t)) as w = Inr w'"
    and dist: "distinct (map fst as)"
    and vals: "\<forall>(a, v) \<in> set as. v = map_of d a"
  shows "attr (table_of t w') (map_of d (hash_key t)) a =
           attr (table_of t w) (map_of d (hash_key t)) a \<or>
         (map_of d a \<noteq> None \<and>
          attr (table_of t w') (map_of d (hash_key t)) a = map_of d a)"
proof (cases "map_of as a")
  case (Some v)
  then have mem: "(a, v) \<in> set as" by (rule map_of_SomeD)
  with vals have "v = map_of d a" by auto
  moreover from dynamoDb_update_assigned [OF upd mem] have "v \<noteq> None" .
  moreover from dynamoDb_update_attr [OF upd dist, of a] Some
  have "attr (table_of t w') (map_of d (hash_key t)) a = v" by simp
  ultimately show ?thesis by simp
next
  case None
  note eq = dynamoDb_update_attr [OF upd dist, of a]
  show ?thesis
  proof (cases "stored (table_of t w) (map_of d (hash_key t)) = None")
    case False
    with eq None show ?thesis by simp
  next
    case True
    then have old: "attr (table_of t w) (map_of d (hash_key t)) a = None"
      by (simp add: attr_def)
    show ?thesis
    proof (cases "a = hash_key t")
      case False
      with eq None True old show ?thesis by simp
    next
      case a: True
      from upd obtain s where "key_string (map_of d (hash_key t)) = Some s"
        by (auto simp: dynamoDb_update_def split: option.splits)
      from key_string_Some [OF this] have "map_of d (hash_key t) \<noteq> None" by simp
      with eq None True a show ?thesis by simp
    qed
  qed
qed

text \<open>
  Claim C2. For every data object \<open>d\<close> and every world, delivering an
  \<^verbatim>\<open>updateOrganization\<close> (or \<^verbatim>\<open>updateUser\<close>) Intent twice gives the outcome and the
  world that delivering it once gives. When the apply succeeds, the record exists, its
  \<^verbatim>\<open>updatedAt\<close> is the value carried in the Intent (the consumer reads no clock), and
  every attribute of the record either keeps its former value or takes the value the
  Intent carries for it: only fields present in the Intent are written.
\<close>

theorem update_intent_idempotent:
  "processSqsMessages [intent ''updateOrganization'' d, intent ''updateOrganization'' d] w =
     processSqsMessages [intent ''updateOrganization'' d] w \<and>
   processSqsMessages [intent ''updateUser'' d, intent ''updateUser'' d] w =
     processSqsMessages [intent ''updateUser'' d] w \<and>
   (processSqsMessages [intent ''updateOrganization'' d] w = (Inr 200, w1) \<longrightarrow>
      stored (organizations w1) (map_of d ''orgId'') \<noteq> None \<and>
      map_of d ''updatedAt'' \<noteq> None \<and>
      attr (organizations w1) (map_of d ''orgId'') ''updatedAt'' = map_of d ''updatedAt'' \<and>
      (\<forall>a. attr (organizations w1) (map_of d ''orgId'') a =
             attr (organizations w) (map_of d ''orgId'') a \<or>
           (map_of d a \<noteq> None \<and>
            attr (organizations w1) (map_of d ''orgId'') a = map_of d a))) \<and>
   (processSqsMessages [intent ''updateUser'' d] w = (Inr 200, w2) \<longrightarrow>
      stored (users w2) (map_of d ''userId'') \<noteq> None \<and>
      map_of d ''updatedAt'' \<noteq> None \<and>
      attr (users w2) (map_of d ''userId'') ''updatedAt'' = map_of d ''updatedAt'' \<and>
      (\<forall>a. attr (users w2) (map_of d ''userId'') a =
             attr (users w) (map_of d ''userId'') a \<or>
           (map_of d a \<noteq> None \<and>
            attr (users w2) (map_of d ''userId'') a = map_of d a)))"
proof (intro conjI impI allI)
  show "processSqsMessages [intent ''updateOrganization'' d, intent ''updateOrganization'' d] w =
     processSqsMessages [intent ''updateOrganization'' d] w"
    by (rule processSqsMessages_twice)
  show "processSqsMessages [intent ''updateUser'' d, intent ''updateUser'' d] w =
     processSqsMessages [intent ''updateUser'' d] w"
    by (rule processSqsMessages_twice)
next
  define as where "as =
     (if truthy (map_of d ''name'') then [(''name'', map_of d ''name'')] else []) @
     (if truthy (map_of d ''description'')
      then [(''description'', map_of d ''description'')] else []) @
     [(''updatedAt'', map_of d ''updatedAt'')]"
  have dist: "distinct (map fst as)" by (simp add: as_def)
  have vals: "\<forall>(a, v) \<in> set as. v = map_of d a" by (auto simp: as_def)
  have mem: "(''updatedAt'', map_of d ''updatedAt'') \<in> set as" by (simp add: as_def)
  have look: "map_of as ''updatedAt'' = Some (map_of d ''updatedAt'')" by (simp add: as_def)
  assume "processSqsMessages [intent ''updateOrganization'' d] w = (Inr 200, w1)"
  then have upd: "dynamoDb_update ORGANIZATIONS_TABLE (map_of d (hash_key ORGANIZATIONS_TABLE)) as w = Inr w1"
    by (auto simp: processSqsMessages_single processRecord_intent as_def split: sum.splits)
  from dynamoDb_update_stored [OF upd]
  show "stored (organizations w1) (map_of d ''orgId'') \<noteq> None" by simp
  from dynamoDb_update_assigned [OF upd mem]
  show "map_of d ''updatedAt'' \<noteq> None" .
  from dynamoDb_update_attr [OF upd dist, of "''updatedAt''"] look
  show "attr (organizations w1) (map_of d ''orgId'') ''updatedAt'' = map_of d ''updatedAt''"
    by simp
  fix a
  from update_intent_effect [OF upd dist vals, of a]
  show "attr (organizations w1) (map_of d ''orgId'') a =
             attr (organizations w) (map_of d ''orgId'') a \<or>
           (map_of d a \<noteq> None \<and>
            attr (organizations w1) (map_of d ''orgId'') a = map_of d a)"
    by simp
next
  define as where "as =
     (if truthy (map_of d ''name'') then [(''name'', map_of d ''name'')] else []) @
     (if truthy (map_of d ''email'') then [(''email'', map_of d ''email'')] else []) @
     [(''updatedAt'', map_of d ''updatedAt'')]"
  have dist: "distinct (map fst as)" by (simp add: as_def)
  have vals: "\<forall>(a, v) \<in> set as. v = map_of d a" by (auto simp: as_def)
  have mem: "(''updatedAt'', map_of d ''updatedAt'') \<in> set as" by (simp add: as_def)
  have look: "map_of as ''updatedAt'' = Some (map_of d ''updatedAt'')" by (simp add: as_def)
  assume "processSqsMessages [intent ''updateUser'' d] w = (Inr 200, w2)"
  then have upd: "dynamoDb_update USERS_TABLE (map_of d (hash_key USERS_TABLE)) as w = Inr w2"
    by (auto simp: processSqsMessages_single processRecord_intent as_def split: sum.splits)
  from dynamoDb_update_stored [OF upd]
  show "stored (users w2) (map_of d ''userId'') \<noteq> None" by simp
  from dynamoDb_update_assigned [OF upd mem]
  show "map_of d ''updatedAt'' \<noteq> None" .
  from dynamoDb_update_attr [OF upd dist, of "''updatedAt''"] look
  show "attr (users w2) (map_of d ''userId'') ''updatedAt'' = map_of d ''updatedAt''"
    by simp
  fix a
  from update_intent_effect [OF upd dist vals, of a]
  show "attr (users w2) (map_of d ''userId'') a =
             attr (users w) (map_of d ''userId'') a \<or>
           (map_of d a \<noteq> None \<and>
            attr (users w2) (map_of d ''userId'') a = map_of d a)"
    by simp
qed

section \<open>Failure of a batch\<close>

text \<open>
  Claim C3. If the Intents before the i-th are applied and leave the world \<open>w'\<close>, and
  applying the i-th raises an error \<open>e\<close> (the store's ValidationException is one), then
  the invocation throws \<open>e\<close> and leaves \<open>w'\<close>: the effects of the earlier Intents stay,
  and the later Intents are not applied.
\<close>

theorem batch_error_rethrown_no_rollback:
  assumes "processSqsMessages pre w = (Inr 200, w')" and "processRecord r w' = Inl e"
  shows "processSqsMessages (pre @ r # post) w = (Inl e, w')"
  using assms by (simp add: processSqsMessages_append)


section \<open>Partial updates\<close>








section \<open>Evaluation at the example data\<close>

lemmas example_defs =
  empty_world_def alice_def acme_def acme_world_def patch_def acme_patched_def
  alice_patched_def

lemmas store_defs =
  dynamoDb_put_def dynamoDb_update_def dynamoDb_get_def dynamoDb_scan_def dynamoDb_query_def
  index_ok_def stored_def attr_def

theorem update_intent_idempotent_witness:
  "processSqsMessages [intent ''updateOrganization'' patch] acme_world = (Inr 200, acme_patched) \<and>
   processSqsMessages [intent ''updateOrganization'' patch, intent ''updateOrganization'' patch]
       acme_world = (Inr 200, acme_patched) \<and>
   attr (organizations acme_patched) (Some (JStr ''o1'')) ''updatedAt'' =
     Some (JStr ''2024-02-02T00:00:00.000Z'') \<and>
   processSqsMessages [intent ''updateUser'' patch] acme_world = (Inr 200, alice_patched) \<and>
   processSqsMessages [intent ''updateUser'' patch, intent ''updateUser'' patch] acme_world =
     (Inr 200, alice_patched) \<and>
   attr (users alice_patched) (Some (JStr ''u1'')) ''updatedAt'' =
     Some (JStr ''2024-02-02T00:00:00.000Z'')"
  using update_intent_idempotent [of patch acme_world acme_patched alice_patched]
  by (simp add: processRecord_intent store_defs example_defs)

theorem batch_error_rethrown_no_rollback_witness:
  "processSqsMessages [intent ''createUser'' alice] empty_world =
     (Inr 200, empty_world\<lparr>users := [(''u1'', alice)]\<rparr>) \<and>
   processRecord (intent ''createOrganization'' [(''name'', JStr ''Acme'')])
     (empty_world\<lparr>users := [(''u1'', alice)]\<rparr>) = Inl ValidationException \<and>
   processSqsMessages
     ([intent ''createUser'' alice] @
      intent ''createOrganization'' [(''name'', JStr ''Acme'')] #
      [intent ''createOrganization'' acme]) empty_world =
     (Inl ValidationException, empty_world\<lparr>users := [(''u1'', alice)]\<rparr>)"
proof -
  have pre: "processSqsMessages [intent ''createUser'' alice] empty_world =
     (Inr 200, empty_world\<lparr>users := [(''u1'', alice)]\<rparr>)"
    by (simp add: processRecord_intent store_defs example_defs)
  have bad: "processRecord (intent ''createOrganization'' [(''name'', JStr ''Acme'')])
     (empty_world\<lparr>users := [(''u1'', alice)]\<rparr>) = Inl ValidationException"
    by (simp add: processRecord_intent store_defs)
  from pre bad batch_error_rethrown_no_rollback [OF pre bad, of "[intent ''createOrganization'' acme]"]
  show ?thesis by simp
qed


section \<open>Unknown and malformed messages\<close>




section \<open>The producer of organization Intents\<close>

lemmas request_defs =
  env0_def post_globex_def put_acme_def put_missing_def get_alice_def post_null_def
  post_nobody_def put_null_def put_seven_def get_oversize_def

lemmas handler_defs =
  catch500_def JSON_parse_def JSON_stringify_def sqs_sendMessage_def buildResponse_def
  template_def

lemma filter_nonempty: "(0 < length (filter P xs)) = (\<exists>x \<in> set xs. P x)"
  by (simp add: filter_empty_conv)

lemma filter_none: "\<forall>x \<in> set xs. \<not> P x \<Longrightarrow> filter P xs = []"
  by (simp add: filter_empty_conv)

lemma filter_take_none: "\<forall>x \<in> set xs. \<not> P x \<Longrightarrow> filter P (take n xs) = []"
  by (rule filter_none) (auto dest: in_set_takeD)

lemma truthy_Some: "truthy v \<Longrightarrow> \<exists>x. v = Some x"
  by (cases v) auto

lemma createOrganization_store_unchanged:
  "organizations (snd (createOrganization en ev w)) = organizations w \<and>
   users (snd (createOrganization en ev w)) = users w"
  by (simp add: createOrganization_def catch500_def createOrganization_try_def
        sqs_sendMessage_def Let_def split: sum.splits)

text \<open>
  Claim C6 says that every request without a \<^verbatim>\<open>name\<close> is answered 400. A request
  whose body is the JSON text \<^verbatim>\<open>null\<close>, and a request without a body, have no
  \<^verbatim>\<open>name\<close>; destructuring (parsing) throws inside the \<^verbatim>\<open>try\<close> block and the answer
  is 500.
\<close>

theorem create_without_object_body_is_500:
  "createOrganization env0 post_null acme_world =
     (\<lparr>statusCode = 500, payload = []\<rparr>, acme_world) \<and>
   createOrganization env0 post_nobody acme_world =
     (\<lparr>statusCode = 500, payload = []\<rparr>, acme_world)"
  by (simp add: createOrganization_def createOrganization_try_def handler_defs request_defs)

text \<open>
  Claim C6, amended. For every POST /organizations request: when the body does not
  parse or is \<^verbatim>\<open>null\<close> the answer is 500; when \<^verbatim>\<open>name\<close> or \<^verbatim>\<open>description\<close> is
  missing (falsy) the answer is 400; when \<^verbatim>\<open>name\<close> is a string and an organization
  with that name is among the items of the page that the scan reads, the answer is 409;
  in all three cases the world is unchanged, so nothing is sent. When \<^verbatim>\<open>name\<close> and
  \<^verbatim>\<open>description\<close> are non-empty strings, no stored organization has the name, and
  the queue accepts the message, the answer
  is 202 with the generated \<^verbatim>\<open>orgId\<close>, and the world differs only by one
  \<^verbatim>\<open>createOrganization\<close> Intent appended to the queue; when the queue refuses it, the
  answer is 500 and the world is unchanged. For every request whatsoever the two tables
  are left as they were.
\<close>

theorem submitCreateOrganization_outcomes:
  "(body ev = None \<or> body ev = Some JNull \<longrightarrow>
      createOrganization en ev w = (\<lparr>statusCode = 500, payload = []\<rparr>, w)) \<and>
   (body ev = Some data \<and> data \<noteq> JNull \<and>
    (\<not> truthy (field data ''name'') \<or> \<not> truthy (field data ''description'')) \<longrightarrow>
      createOrganization en ev w = (\<lparr>statusCode = 400, payload = []\<rparr>, w)) \<and>
   (body ev = Some data \<and> data \<noteq> JNull \<and>
    field data ''name'' = Some (JStr n) \<and> n \<noteq> [] \<and> truthy (field data ''description'') \<and>
    (\<exists>org \<in> set (take (page_items en) (map snd (organizations w))).
        map_of org ''name'' = Some (JStr n)) \<longrightarrow>
      createOrganization en ev w = (\<lparr>statusCode = 409, payload = []\<rparr>, w)) \<and>
   (body ev = Some data \<and> data \<noteq> JNull \<and>
    field data ''name'' = Some (JStr n) \<and> n \<noteq> [] \<and>
    field data ''description'' = Some (JStr d) \<and> d \<noteq> [] \<and>
    (\<forall>org \<in> set (map snd (organizations w)). map_of org ''name'' \<noteq> Some (JStr n)) \<longrightarrow>
      (queue_accepts en \<longrightarrow>
         createOrganization en ev w =
           (\<lparr>statusCode = 202, payload = [(''orgId'', JStr (uuidv4 en))]\<rparr>,
            w\<lparr>queue := queue w @
               [Some (JObj
                  [(''operation'', JStr ''createOrganization''),
                   (''data'', JObj
                      [(''orgId'', JStr (uuidv4 en)), (''name'', JStr n),
                       (''description'', JStr d),
                       (''createdAt'', JStr (now_first en)),
                       (''updatedAt'', JStr (now_second en))])])]\<rparr>)) \<and>
      (\<not> queue_accepts en \<longrightarrow>
         createOrganization en ev w = (\<lparr>statusCode = 500, payload = []\<rparr>, w))) \<and>
   (\<forall>ev'. organizations (snd (createOrganization en ev' w)) = organizations w \<and>
          users (snd (createOrganization en ev' w)) = users w)"
proof (intro conjI impI allI)
  assume "body ev = None \<or> body ev = Some JNull"
  then show "createOrganization en ev w = (\<lparr>statusCode = 500, payload = []\<rparr>, w)"
    by (auto simp: createOrganization_def createOrganization_try_def handler_defs)
next
  assume "body ev = Some data \<and> data \<noteq> JNull \<and>
    (\<not> truthy (field data ''name'') \<or> \<not> truthy (field data ''description''))"
  then show "createOrganization en ev w = (\<lparr>statusCode = 400, payload = []\<rparr>, w)"
    by (auto simp: createOrganization_def createOrganization_try_def handler_defs
          props_Some_cases)
next
  assume "body ev = Some data \<and> data \<noteq> JNull \<and>
    field data ''name'' = Some (JStr n) \<and> n \<noteq> [] \<and> truthy (field data ''description'') \<and>
    (\<exists>org \<in> set (take (page_items en) (map snd (organizations w))).
        map_of org ''name'' = Some (JStr n))"
  then show "createOrganization en ev w = (\<lparr>statusCode = 409, payload = []\<rparr>, w)"
    by (simp add: createOrganization_def createOrganization_try_def handler_defs
          props_Some_cases dynamoDb_scan_def filter_nonempty del: length_greater_0_conv)
next
  assume h: "body ev = Some data \<and> data \<noteq> JNull \<and>
    field data ''name'' = Some (JStr n) \<and> n \<noteq> [] \<and>
    field data ''description'' = Some (JStr d) \<and> d \<noteq> [] \<and>
    (\<forall>org \<in> set (map snd (organizations w)). map_of org ''name'' \<noteq> Some (JStr n))"
  then have none: "filter (\<lambda>it. map_of it ''name'' = Some (JStr n))
      (take (page_items en) (map snd (organizations w))) = []"
    by (intro filter_take_none) simp
  {
    assume "queue_accepts en"
    with h none show "createOrganization en ev w =
           (\<lparr>statusCode = 202, payload = [(''orgId'', JStr (uuidv4 en))]\<rparr>,
            w\<lparr>queue := queue w @
               [Some (JObj
                  [(''operation'', JStr ''createOrganization''),
                   (''data'', JObj
                      [(''orgId'', JStr (uuidv4 en)), (''name'', JStr n),
                       (''description'', JStr d),
                       (''createdAt'', JStr (now_first en)),
                       (''updatedAt'', JStr (now_second en))])])]\<rparr>)"
      by (simp add: createOrganization_def createOrganization_try_def handler_defs
            props_Some_cases dynamoDb_scan_def Let_def)
  }
  {
    assume "\<not> queue_accepts en"
    with h none show "createOrganization en ev w = (\<lparr>statusCode = 500, payload = []\<rparr>, w)"
      by (simp add: createOrganization_def createOrganization_try_def handler_defs
            props_Some_cases dynamoDb_scan_def Let_def)
  }
next
  fix ev'
  show "organizations (snd (createOrganization en ev' w)) = organizations w"
    and "users (snd (createOrganization en ev' w)) = users w"
    using createOrganization_store_unchanged by simp_all
qed

theorem submitCreateOrganization_outcomes_witness:
  "createOrganization env0 post_globex acme_world =
     (\<lparr>statusCode = 202, payload = [(''orgId'', JStr ''3f2a-generated'')]\<rparr>,
      acme_world\<lparr>queue :=
        [Some (JObj
           [(''operation'', JStr ''createOrganization''),
            (''data'', JObj
               [(''orgId'', JStr ''3f2a-generated''), (''name'', JStr ''Globex''),
                (''description'', JStr ''Energy''),
                (''createdAt'', JStr ''2024-03-03T00:00:00.000Z''),
                (''updatedAt'', JStr ''2024-03-03T00:00:00.001Z'')])])]\<rparr>) \<and>
   createOrganization env0 post_null acme_world =
     (\<lparr>statusCode = 500, payload = []\<rparr>, acme_world) \<and>
   organizations (snd (createOrganization env0 post_globex acme_world)) = [(''o1'', acme)]"
  using submitCreateOrganization_outcomes
    [where ev = post_globex and en = env0 and w = acme_world and n = "''Globex''"
       and data = "JObj [(''name'', JStr ''Globex''), (''description'', JStr ''Energy'')]"
       and d = "''Energy''"]
    submitCreateOrganization_outcomes [where ev = post_null and en = env0 and w = acme_world]
  by (simp add: request_defs example_defs)


text \<open>
  The case that the amended statement leaves open: the scan reads one page and the
  handler does not ask for the next, so a name that only an organization beyond the
  page has is not found. Here the page holds one item, Beta is the second organization,
  and a second Beta is accepted.
\<close>

lemma duplicate_beyond_the_page_is_accepted:
  "map_of (organizations two_org_world) ''oB'' =
     Some [(''orgId'', JStr ''oB''), (''name'', JStr ''Beta''), (''description'', JStr ''Second''),
           (''createdAt'', JStr ''2024-01-01T00:00:00.000Z''),
           (''updatedAt'', JStr ''2024-01-01T00:00:00.000Z'')] \<and>
   statusCode (fst (createOrganization env_short_page post_beta two_org_world)) = 202 \<and>
   statusCode (fst (createOrganization env0 post_beta two_org_world)) = 409"
  by (simp add: createOrganization_def createOrganization_try_def handler_defs
        dynamoDb_scan_def env_short_page_def post_beta_def two_org_world_def env0_def
        Let_def)

text \<open>
  Claim C8 says that every request without an \<^verbatim>\<open>orgId\<close> is answered with a
  ValidationError, and every request for an \<^verbatim>\<open>orgId\<close> under which nothing is stored
  with a NotFoundError. A request whose body is the JSON text \<^verbatim>\<open>null\<close> has no
  \<^verbatim>\<open>orgId\<close>, and no organization is stored under the number 7; both requests are
  answered 500.
\<close>

theorem update_without_usable_orgId_is_500:
  "updateOrganization env0 put_null acme_world =
     (\<lparr>statusCode = 500, payload = []\<rparr>, acme_world) \<and>
   updateOrganization env0 put_seven acme_world =
     (\<lparr>statusCode = 500, payload = []\<rparr>, acme_world)"
  by (simp add: updateOrganization_def updateOrganization_try_def handler_defs request_defs
        dynamoDb_get_def)

text \<open>
  Claim C8, amended. For every PUT /organizations request: when the body does not
  parse or is \<^verbatim>\<open>null\<close> the answer is 500; when \<^verbatim>\<open>orgId\<close> is missing, or both
  \<^verbatim>\<open>name\<close> and \<^verbatim>\<open>description\<close> are, the answer is 400; otherwise, when \<^verbatim>\<open>orgId\<close> is
  not a string of 1 to 2048 bytes, the store refuses the key and the answer is 500;
  otherwise, when no organization is stored under \<^verbatim>\<open>orgId\<close>, the answer is 404. In
  these cases the world, the queue included, is unchanged. Otherwise, when
  \<^verbatim>\<open>name\<close> and \<^verbatim>\<open>description\<close> are strings where present and the queue accepts the
  message, the answer is 202 with the \<^verbatim>\<open>orgId\<close> and exactly one
  \<^verbatim>\<open>updateOrganization\<close> Intent is appended to the queue, carrying \<^verbatim>\<open>orgId\<close>, those of
  \<^verbatim>\<open>name\<close> and \<^verbatim>\<open>description\<close> that the request supplies, and the clock reading as
  \<^verbatim>\<open>updatedAt\<close>; when the queue refuses it, the answer is 500 and the world is
  unchanged.
\<close>

theorem submitUpdateOrganization_outcomes:
  "(body ev = None \<or> body ev = Some JNull \<longrightarrow>
      updateOrganization en ev w = (\<lparr>statusCode = 500, payload = []\<rparr>, w)) \<and>
   (body ev = Some data \<and> data \<noteq> JNull \<and>
    (\<not> truthy (field data ''orgId'') \<or>
     (\<not> truthy (field data ''name'') \<and> \<not> truthy (field data ''description''))) \<longrightarrow>
      updateOrganization en ev w = (\<lparr>statusCode = 400, payload = []\<rparr>, w)) \<and>
   (body ev = Some data \<and> data \<noteq> JNull \<and> truthy (field data ''orgId'') \<and>
    (truthy (field data ''name'') \<or> truthy (field data ''description'')) \<longrightarrow>
      (key_string (field data ''orgId'') = None \<longrightarrow>
         updateOrganization en ev w = (\<lparr>statusCode = 500, payload = []\<rparr>, w)) \<and>
      (key_string (field data ''orgId'') = Some s \<and> map_of (organizations w) s = None \<longrightarrow>
         updateOrganization en ev w = (\<lparr>statusCode = 404, payload = []\<rparr>, w)) \<and>
      (key_string (field data ''orgId'') = Some s \<and> map_of (organizations w) s \<noteq> None \<and>
       \<not> queue_accepts en \<longrightarrow>
         updateOrganization en ev w = (\<lparr>statusCode = 500, payload = []\<rparr>, w)) \<and>
      (key_string (field data ''orgId'') = Some s \<and> map_of (organizations w) s \<noteq> None \<and>
       queue_accepts en \<and>
       (field data ''name'' = None \<or> (\<exists>ns. field data ''name'' = Some (JStr ns))) \<and>
       (field data ''description'' = None \<or>
        (\<exists>ds. field data ''description'' = Some (JStr ds))) \<longrightarrow>
         updateOrganization en ev w =
           (\<lparr>statusCode = 202, payload = [(''orgId'', JStr s)]\<rparr>,
            w\<lparr>queue := queue w @
               [Some (JObj
                  [(''operation'', JStr ''updateOrganization''),
                   (''data'', JObj
                      ([(''orgId'', JStr s)] @
                       (case field data ''name'' of
                          None \<Rightarrow> [] | Some nv \<Rightarrow> [(''name'', nv)]) @
                       (case field data ''description'' of
                          None \<Rightarrow> [] | Some dv \<Rightarrow> [(''description'', dv)]) @
                       [(''updatedAt'', JStr (now_first en))]))])]\<rparr>)))"
proof (intro conjI impI)
  assume "body ev = None \<or> body ev = Some JNull"
  then show "updateOrganization en ev w = (\<lparr>statusCode = 500, payload = []\<rparr>, w)"
    by (auto simp: updateOrganization_def updateOrganization_try_def handler_defs)
next
  assume "body ev = Some data \<and> data \<noteq> JNull \<and>
    (\<not> truthy (field data ''orgId'') \<or>
     (\<not> truthy (field data ''name'') \<and> \<not> truthy (field data ''description'')))"
  then show "updateOrganization en ev w = (\<lparr>statusCode = 400, payload = []\<rparr>, w)"
    by (auto simp: updateOrganization_def updateOrganization_try_def handler_defs
          props_Some_cases Let_def)
next
  assume h: "body ev = Some data \<and> data \<noteq> JNull \<and> truthy (field data ''orgId'') \<and>
    (truthy (field data ''name'') \<or> truthy (field data ''description''))"
  {
    assume "key_string (field data ''orgId'') = None"
    with h show "updateOrganization en ev w = (\<lparr>statusCode = 500, payload = []\<rparr>, w)"
      by (auto simp: updateOrganization_def updateOrganization_try_def handler_defs
            props_Some_cases dynamoDb_get_def Let_def)
  }
  {
    assume k: "key_string (field data ''orgId'') = Some s \<and> map_of (organizations w) s = None"
    then have "field data ''orgId'' = Some (JStr s)" using key_string_Some by blast
    with h k show "updateOrganization en ev w = (\<lparr>statusCode = 404, payload = []\<rparr>, w)"
      by (auto simp: updateOrganization_def updateOrganization_try_def handler_defs
            props_Some_cases dynamoDb_get_def Let_def)
  }
  {
    assume k: "key_string (field data ''orgId'') = Some s \<and>
      map_of (organizations w) s \<noteq> None \<and> \<not> queue_accepts en"
    with h show "updateOrganization en ev w = (\<lparr>statusCode = 500, payload = []\<rparr>, w)"
      by (auto simp: updateOrganization_def updateOrganization_try_def handler_defs
            props_Some_cases dynamoDb_get_def Let_def)
  }
  {
    assume k: "key_string (field data ''orgId'') = Some s \<and>
      map_of (organizations w) s \<noteq> None \<and> queue_accepts en \<and>
      (field data ''name'' = None \<or> (\<exists>ns. field data ''name'' = Some (JStr ns))) \<and>
      (field data ''description'' = None \<or>
       (\<exists>ds. field data ''description'' = Some (JStr ds)))"
    then have o: "field data ''orgId'' = Some (JStr s)" using key_string_Some by blast
    from k obtain org where org: "map_of (organizations w) s = Some org" by auto
    have get: "dynamoDb_get ORGANIZATIONS_TABLE (field data ''orgId'') w = Inr (Some org)"
      using k org by (simp add: dynamoDb_get_def)
    from h k show "updateOrganization en ev w =
           (\<lparr>statusCode = 202, payload = [(''orgId'', JStr s)]\<rparr>,
            w\<lparr>queue := queue w @
               [Some (JObj
                  [(''operation'', JStr ''updateOrganization''),
                   (''data'', JObj
                      ([(''orgId'', JStr s)] @
                       (case field data ''name'' of
                          None \<Rightarrow> [] | Some nv \<Rightarrow> [(''name'', nv)]) @
                       (case field data ''description'' of
                          None \<Rightarrow> [] | Some dv \<Rightarrow> [(''description'', dv)]) @
                       [(''updatedAt'', JStr (now_first en))]))])]\<rparr>)"
      unfolding updateOrganization_def updateOrganization_try_def
      by (simp add: handler_defs props_Some_cases get Let_def)
         (simp add: o split: option.splits)
  }
qed

theorem submitUpdateOrganization_outcomes_witness:
  "updateOrganization env0 put_acme acme_world =
     (\<lparr>statusCode = 202, payload = [(''orgId'', JStr ''o1'')]\<rparr>,
      acme_world\<lparr>queue :=
        [Some (JObj
           [(''operation'', JStr ''updateOrganization''),
            (''data'', JObj
               [(''orgId'', JStr ''o1''), (''description'', JStr ''Sellers''),
                (''updatedAt'', JStr ''2024-03-03T00:00:00.000Z'')])])]\<rparr>) \<and>
   updateOrganization env0 put_missing acme_world =
     (\<lparr>statusCode = 404, payload = []\<rparr>, acme_world) \<and>
   updateOrganization env0 put_seven acme_world =
     (\<lparr>statusCode = 500, payload = []\<rparr>, acme_world)"
  using submitUpdateOrganization_outcomes
    [where ev = put_acme and en = env0 and w = acme_world and s = "''o1''"
       and data = "JObj [(''orgId'', JStr ''o1''), (''description'', JStr ''Sellers'')]"]
    submitUpdateOrganization_outcomes
    [where ev = put_missing and en = env0 and w = acme_world and s = "''missing-id''"
       and data = "JObj [(''orgId'', JStr ''missing-id''), (''name'', JStr ''X'')]"]
    submitUpdateOrganization_outcomes
    [where ev = put_seven and en = env0 and w = acme_world
       and data = "JObj [(''orgId'', JNum 7), (''name'', JStr ''X'')]"]
  by (simp add: request_defs example_defs)


section \<open>Reading a user\<close>

lemma getUser_reads_only: "snd (getUser ev w) = w"
  by (simp add: getUser_def catch500_def getUser_try_def template_def
        split: sum.splits option.splits)

text \<open>
  Claim C9 says that \<^verbatim>\<open>getUser\<close> answers 404 whenever no user is stored under the
  \<^verbatim>\<open>userId\<close>. Under a \<^verbatim>\<open>userId\<close> of 2049 bytes no user can be stored; the store
  refuses the key, the \<^verbatim>\<open>get\<close> throws and the answer is 500.
\<close>

theorem getUser_oversize_key_is_500:
  "getUser get_oversize acme_world = (\<lparr>statusCode = 500, payload = []\<rparr>, acme_world)"
  by (simp add: getUser_def getUser_try_def handler_defs request_defs dynamoDb_get_def)

text \<open>
  Claim C9, amended. For path parameters \<^verbatim>\<open>orgId\<close> and \<^verbatim>\<open>userId\<close> (both non-empty)
  and every world: when \<^verbatim>\<open>userId\<close> has at most 2048 bytes, \<^verbatim>\<open>getUser\<close> answers 200
  with the stored item as \<^verbatim>\<open>user\<close> exactly when an item is stored under \<^verbatim>\<open>userId\<close>
  and its \<^verbatim>\<open>orgId\<close> attribute is the requested one, and 404 in every other case; when
  \<^verbatim>\<open>userId\<close> is longer, it answers 500. No call of \<^verbatim>\<open>getUser\<close> changes the world.
\<close>

theorem getUser_scoped:
  assumes "pathParameters ev = Some ps"
    and "map_of ps ''orgId'' = Some orgId" and "map_of ps ''userId'' = Some userId"
    and "orgId \<noteq> []" and "userId \<noteq> []"
  shows "(length userId \<le> 2048 \<longrightarrow>
      getUser ev w =
        (case map_of (users w) userId of
           None \<Rightarrow> (\<lparr>statusCode = 404, payload = []\<rparr>, w)
         | Some Item \<Rightarrow>
             if map_of Item ''orgId'' = Some (JStr orgId)
             then (\<lparr>statusCode = 200, payload = [(''user'', JObj Item)]\<rparr>, w)
             else (\<lparr>statusCode = 404, payload = []\<rparr>, w)) \<and>
      (statusCode (fst (getUser ev w)) = 200 \<longleftrightarrow>
         (\<exists>Item. map_of (users w) userId = Some Item \<and>
                 map_of Item ''orgId'' = Some (JStr orgId)))) \<and>
   (2048 < length userId \<longrightarrow>
      getUser ev w = (\<lparr>statusCode = 500, payload = []\<rparr>, w)) \<and>
   (\<forall>ev'. snd (getUser ev' w) = w)"
proof (intro conjI impI allI)
  assume len: "length userId \<le> 2048"
  with assms have eq: "getUser ev w =
        (case map_of (users w) userId of
           None \<Rightarrow> (\<lparr>statusCode = 404, payload = []\<rparr>, w)
         | Some Item \<Rightarrow>
             if map_of Item ''orgId'' = Some (JStr orgId)
             then (\<lparr>statusCode = 200, payload = [(''user'', JObj Item)]\<rparr>, w)
             else (\<lparr>statusCode = 404, payload = []\<rparr>, w))"
    by (simp add: getUser_def getUser_try_def handler_defs dynamoDb_get_def
          split: option.splits)
  then show "getUser ev w =
        (case map_of (users w) userId of
           None \<Rightarrow> (\<lparr>statusCode = 404, payload = []\<rparr>, w)
         | Some Item \<Rightarrow>
             if map_of Item ''orgId'' = Some (JStr orgId)
             then (\<lparr>statusCode = 200, payload = [(''user'', JObj Item)]\<rparr>, w)
             else (\<lparr>statusCode = 404, payload = []\<rparr>, w))" .
  show "statusCode (fst (getUser ev w)) = 200 \<longleftrightarrow>
         (\<exists>Item. map_of (users w) userId = Some Item \<and>
                 map_of Item ''orgId'' = Some (JStr orgId))"
    unfolding eq by (simp split: option.splits)
next
  assume "2048 < length userId"
  with assms show "getUser ev w = (\<lparr>statusCode = 500, payload = []\<rparr>, w)"
    by (simp add: getUser_def getUser_try_def handler_defs dynamoDb_get_def)
next
  fix ev'
  show "snd (getUser ev' w) = w" by (rule getUser_reads_only)
qed

theorem getUser_scoped_witness:
  "getUser get_alice acme_world =
     (\<lparr>statusCode = 200, payload = [(''user'', JObj alice)]\<rparr>, acme_world) \<and>
   map_of (users acme_world) ''u1'' = Some alice \<and>
   map_of alice ''orgId'' = Some (JStr ''o1'') \<and>
   getUser get_oversize acme_world = (\<lparr>statusCode = 500, payload = []\<rparr>, acme_world)"
  using getUser_scoped
    [where ev = get_alice and ps = "[(''orgId'', ''o1''), (''userId'', ''u1'')]"
       and orgId = "''o1''" and userId = "''u1''" and w = acme_world]
    getUser_scoped
    [where ev = get_oversize
       and ps = "[(''orgId'', ''o1''), (''userId'', replicate 2049 (CHR ''u''))]"
       and orgId = "''o1''" and userId = "replicate 2049 (CHR ''u'')" and w = acme_world]
  by (simp add: request_defs example_defs)

section \<open>The producer of user Intents\<close>

lemmas user_request_defs =
  two_org_world_def put_bob_def put_bob_intent_def put_taken_def put_new_def

text \<open>
  Claim C7 (scoped uniqueness of e-mail addresses), evaluated at a failing input. The
  world holds the organizations oA and oB and two users of oB with different e-mail
  addresses. A PUT to /organizations/oA/users for user u1, with the address of u2, is
  accepted: the address is checked against the users of oA only, and nothing checks
  that u1 belongs to oA. Applying the Intent sets the address of u1 and leaves its
  \<^verbatim>\<open>orgId\<close>, so the two users of oB end up with the same address.
\<close>

theorem scoped_uniqueness_broken_by_update:
  "scoped_email_unique (users two_org_world) \<and>
   createOrUpdateUser env0 put_bob two_org_world =
     (buildResponse 202 [(''userId'', JStr ''u1'')],
      two_org_world\<lparr>queue := [put_bob_intent]\<rparr>) \<and>
   fst (processSqsMessages [put_bob_intent] (two_org_world\<lparr>queue := [put_bob_intent]\<rparr>)) =
     Inr 200 \<and>
   attr (users (snd (processSqsMessages [put_bob_intent]
          (two_org_world\<lparr>queue := [put_bob_intent]\<rparr>)))) (Some (JStr ''u1'')) ''orgId'' =
     Some (JStr ''oB'') \<and>
   attr (users (snd (processSqsMessages [put_bob_intent]
          (two_org_world\<lparr>queue := [put_bob_intent]\<rparr>)))) (Some (JStr ''u1'')) ''email'' =
     Some (JStr ''carol@example.org'') \<and>
   attr (users (snd (processSqsMessages [put_bob_intent]
          (two_org_world\<lparr>queue := [put_bob_intent]\<rparr>)))) (Some (JStr ''u2'')) ''orgId'' =
     Some (JStr ''oB'') \<and>
   attr (users (snd (processSqsMessages [put_bob_intent]
          (two_org_world\<lparr>queue := [put_bob_intent]\<rparr>)))) (Some (JStr ''u2'')) ''email'' =
     Some (JStr ''carol@example.org'') \<and>
   \<not> scoped_email_unique (users (snd (processSqsMessages [put_bob_intent]
          (two_org_world\<lparr>queue := [put_bob_intent]\<rparr>))))"
proof -
  have prod: "createOrUpdateUser env0 put_bob two_org_world =
     (buildResponse 202 [(''userId'', JStr ''u1'')],
      two_org_world\<lparr>queue := [put_bob_intent]\<rparr>)"
    by (simp add: createOrUpdateUser_def createOrUpdateUser_try_def handler_defs intent_def
          dynamoDb_get_def dynamoDb_query_def user_request_defs env0_def)
  have cons: "processSqsMessages [put_bob_intent] (two_org_world\<lparr>queue := [put_bob_intent]\<rparr>) =
     (Inr 200, two_org_world\<lparr>queue := [put_bob_intent], users :=
        [(''u1'', [(''userId'', JStr ''u1''), (''orgId'', JStr ''oB''), (''name'', JStr ''Bob''),
                   (''email'', JStr ''carol@example.org''),
                   (''createdAt'', JStr ''2024-01-02T00:00:00.000Z''),
                   (''updatedAt'', JStr ''2024-03-03T00:00:00.001Z'')]),
         (''u2'', [(''userId'', JStr ''u2''), (''orgId'', JStr ''oB''), (''name'', JStr ''Carol''),
                   (''email'', JStr ''carol@example.org''),
                   (''createdAt'', JStr ''2024-01-02T00:00:00.000Z''),
                   (''updatedAt'', JStr ''2024-01-02T00:00:00.000Z'')])]\<rparr>)"
    by (simp add: put_bob_intent_def processRecord_intent dynamoDb_update_def two_org_world_def)
  have before: "scoped_email_unique (users two_org_world)"
    by (simp add: scoped_email_unique_def two_org_world_def)
  have after: "\<not> scoped_email_unique
     [(''u1'', [(''userId'', JStr ''u1''), (''orgId'', JStr ''oB''), (''name'', JStr ''Bob''),
                (''email'', JStr ''carol@example.org''),
                (''createdAt'', JStr ''2024-01-02T00:00:00.000Z''),
                (''updatedAt'', JStr ''2024-03-03T00:00:00.001Z'')]),
      (''u2'', [(''userId'', JStr ''u2''), (''orgId'', JStr ''oB''), (''name'', JStr ''Carol''),
                (''email'', JStr ''carol@example.org''),
                (''createdAt'', JStr ''2024-01-02T00:00:00.000Z''),
                (''updatedAt'', JStr ''2024-01-02T00:00:00.000Z'')])]"
    by (simp add: scoped_email_unique_def)
  show ?thesis
    unfolding prod cons using before after
    by (simp add: attr_def stored_def)
qed






end
